theory Spec2Isabelle
  imports Complex_Main
begin

section \<open>Values, time and exceptions\<close>

text \<open>
  A sample of a series is a float. Only the distinction the loader makes is kept: an
  ordinary number (idealised as a rational), the missing value NaN, and the two infinities.
  \<open>isnull\<close> is what \<^verbatim>\<open>Series.isnull()\<close> marks: NaN, and nothing else.
\<close>

datatype val = Num rat | NaN | PosInf | NegInf

definition isnull :: "val \<Rightarrow> bool" where
  "isnull v = (v = NaN)"

definition isfinite :: "val \<Rightarrow> bool" where
  "isfinite v = (case v of Num _ \<Rightarrow> True | _ \<Rightarrow> False)"

text \<open>
  Time is counted in whole seconds: a \<open>timedelta\<close> is a number of seconds, a time stamp
  the seconds since the epoch. A time zone is known by its name and has a fixed offset
  from UTC, which the environment supplies.
\<close>

type_synonym timedelta = int
type_synonym tzinfo = string

definition utc :: tzinfo where
  "utc = ''UTC''"

definition day :: int where
  "day = 86400"

text \<open>The exception classes that the module raises or lets through.\<close>

datatype error =
    IncompatibleModelSpecs string
  | ValueError string
  | KeyError string
  | TypeError string
  | AttributeError string

fun exception_class :: "error \<Rightarrow> string" where
  "exception_class (IncompatibleModelSpecs _) = ''IncompatibleModelSpecs''"
| "exception_class (ValueError _) = ''ValueError''"
| "exception_class (KeyError _) = ''KeyError''"
| "exception_class (TypeError _) = ''TypeError''"
| "exception_class (AttributeError _) = ''AttributeError''"

fun message :: "error \<Rightarrow> string" where
  "message (IncompatibleModelSpecs m) = m"
| "message (ValueError m) = m"
| "message (KeyError m) = m"
| "message (TypeError m) = m"
| "message (AttributeError m) = m"

section \<open>Series and their index\<close>

text \<open>
  The frequency of an index is a pandas offset. The fixed ones are kept, the ticks: a
  number of days, hours, minutes or seconds. \<open>freqstr\<close> is how a tick prints, and the
  print tells \<^verbatim>\<open>60T\<close> from \<^verbatim>\<open>H\<close> though both last an hour; \<open>delta\<close> is how long
  it lasts.
\<close>

datatype tick_unit = Day | Hour | Minute | Second

fun unit_seconds :: "tick_unit \<Rightarrow> int" where
  "unit_seconds Day = 86400"
| "unit_seconds Hour = 3600"
| "unit_seconds Minute = 60"
| "unit_seconds Second = 1"

fun unit_letter :: "tick_unit \<Rightarrow> string" where
  "unit_letter Day = ''D''"
| "unit_letter Hour = ''H''"
| "unit_letter Minute = ''T''"
| "unit_letter Second = ''S''"

datatype offset = Tick nat tick_unit

fun delta :: "offset \<Rightarrow> timedelta" where
  "delta (Tick n u) = int n * unit_seconds u"

definition digit_char :: "nat \<Rightarrow> char" where
  "digit_char n = ''0123456789'' ! n"

fun string_of_nat :: "nat \<Rightarrow> string" where
  "string_of_nat n =
     (if n < 10 then [digit_char n] else string_of_nat (n div 10) @ [digit_char (n mod 10)])"

declare string_of_nat.simps [simp del]

fun freqstr :: "offset \<Rightarrow> string" where
  "freqstr (Tick n u) = (if n = 1 then unit_letter u else string_of_nat n @ unit_letter u)"

text \<open>
  A \<^verbatim>\<open>DatetimeIndex\<close> holds its time stamps, an optional time zone and an optional
  frequency. With a time zone the stamps are instants (UTC seconds); without one they are
  wall-clock readings. Any other index is known by the name of its type only.
\<close>

record datetime_index =
  stamps :: "int list"
  tz :: "tzinfo option"
  freq :: "offset option"

datatype pd_index = DatetimeIndex datetime_index | OtherIndex string

record series =
  index :: pd_index
  vals :: "val list"

fun regularly_spaced :: "timedelta \<Rightarrow> int list \<Rightarrow> bool" where
  "regularly_spaced f (x # y # ys) = (y - x = f \<and> regularly_spaced f (y # ys))"
| "regularly_spaced f _ = True"


text \<open>
  What a call can return: a series, or an object of another kind, known by how it prints.
\<close>

datatype pyobject = PySeries series | PyOther string


text \<open>\<^verbatim>\<open>pd.Series()\<close>: no values, under a plain \<^verbatim>\<open>Index\<close>.\<close>

definition empty_series :: series where
  "empty_series = \<lparr>index = OtherIndex ''Index'', vals = []\<rparr>"

text \<open>
  \<^verbatim>\<open>index.tz_localize(zone)\<close> on a naive index reads the wall-clock stamps as
  readings in \<open>zone\<close>, so the instant is the reading less the zone's offset; an index
  that has a zone already refuses.
\<close>

definition tz_localize :: "(tzinfo \<Rightarrow> int) \<Rightarrow> tzinfo \<Rightarrow> datetime_index \<Rightarrow> error + datetime_index" where
  "tz_localize utcoffset zone ix =
     (case tz ix of
        Some _ \<Rightarrow> Inl (TypeError ''Already tz-aware, use tz_convert to convert.'')
      | None \<Rightarrow> Inr (ix\<lparr>stamps := map (\<lambda>w. w - utcoffset zone) (stamps ix), tz := Some zone\<rparr>))"

section \<open>Resampling\<close>

datatype side = Left | Right

text \<open>
  The \<^verbatim>\<open>resampling_config\<close> dictionary: its items, every key once. A value is
  \<^verbatim>\<open>None\<close>, a string, or another object, known by how it prints.
\<close>

datatype cfg_value = CNone | CStr string | COther string

type_synonym resampling_config = "(string \<times> cfg_value) list"

fun cfg_str :: "cfg_value \<Rightarrow> string" where
  "cfg_str CNone = ''None''"
| "cfg_str (CStr x) = x"
| "cfg_str (COther x) = x"

text \<open>
  The mean of a bucket, as pandas takes it: NaN is skipped, an empty bucket gives NaN,
  infinities of both signs give NaN, one sign gives that infinity.
\<close>

fun num_of :: "val \<Rightarrow> rat" where
  "num_of (Num q) = q"
| "num_of _ = 0"

definition mean :: "val list \<Rightarrow> val" where
  "mean vs =
     (let ws = filter (\<lambda>v. \<not> isnull v) vs in
      if ws = [] then NaN
      else if PosInf \<in> set ws \<and> NegInf \<in> set ws then NaN
      else if PosInf \<in> set ws then PosInf
      else if NegInf \<in> set ws then NegInf
      else Num (sum_list (map num_of ws) / of_nat (length ws)))"

text \<open>
  The bins of \<^verbatim>\<open>resample\<close> for a fixed frequency \<open>f\<close>: the grid is anchored at the
  local midnight of the first sample's day, runs from the bin of the earliest sample to the
  bin of the latest, and every bin is closed on the chosen side.
\<close>

definition bin_edges :: "int \<Rightarrow> side \<Rightarrow> timedelta \<Rightarrow> int \<Rightarrow> int \<Rightarrow> int \<times> nat" where
  "bin_edges off cl f t0 t1 =
     (let anchor = t0 - ((t0 + off) mod day);
          foffset = (t0 - anchor) mod f;
          loffset = (t1 - anchor) mod f;
          fres = (if cl = Right
                  then (if 0 < foffset then t0 - foffset else t0 - f)
                  else (if 0 < foffset then t0 - foffset else t0));
          lres = (if cl = Right
                  then (if 0 < loffset then t1 + (f - loffset) else t1)
                  else (if 0 < loffset then t1 + (f - loffset) else t1 + f))
      in (fres, nat ((lres - fres) div f)))"

definition in_bin :: "side \<Rightarrow> int \<Rightarrow> int \<Rightarrow> int \<Rightarrow> bool" where
  "in_bin cl lo hi t = (if cl = Right then lo < t \<and> t \<le> hi else lo \<le> t \<and> t < hi)"

definition bucket :: "side \<Rightarrow> int list \<Rightarrow> val list \<Rightarrow> int \<Rightarrow> int \<Rightarrow> val list" where
  "bucket cl ts vs lo hi = map snd (filter (\<lambda>(t, v). in_bin cl lo hi t) (zip ts vs))"

text \<open>A resampler: the index of the bins, and for every bin the samples that fall into it.\<close>

record resampler =
  bin_index :: datetime_index
  buckets :: "val list list"

text \<open>
  The keyword arguments \<^verbatim>\<open>closed\<close> and \<^verbatim>\<open>label\<close> of \<^verbatim>\<open>resample\<close>: absent or
  \<^verbatim>\<open>None\<close> for the default, or one of the two sides. \<open>plain_kwargs\<close> holds of keyword
  arguments that are these two at most, with such values.
\<close>

fun side_of :: "cfg_value option \<Rightarrow> side option option" where
  "side_of None = Some None"
| "side_of (Some CNone) = Some None"
| "side_of (Some (CStr x)) =
     (if x = ''left'' then Some (Some Left) else if x = ''right'' then Some (Some Right) else None)"
| "side_of (Some (COther x)) = None"

definition plain_kwargs :: "(string \<times> cfg_value) list \<Rightarrow> bool" where
  "plain_kwargs kwargs =
     (list_all (\<lambda>(k, v). k = ''closed'' \<or> k = ''label'') kwargs
      \<and> side_of (map_of kwargs ''closed'') \<noteq> None
      \<and> side_of (map_of kwargs ''label'') \<noteq> None)"

section \<open>The environment of a load\<close>

type_synonym transformation = "val list \<Rightarrow> error + val list"

text \<open>
  What a load reads from outside the module. The offsets of the time zones. The data frame
  that unpickling a file yields, its columns by name. The helper
  \<^verbatim>\<open>timedelta_to_pandas_freq_str\<close> of the package's \<^verbatim>\<open>time_utils\<close>, and how pandas
  reads a frequency string. What \<^verbatim>\<open>resample\<close> does with keyword arguments other than the
  plain ones. The bound methods that \<^verbatim>\<open>inspect.getmembers(data_resampler, inspect.ismethod)\<close>
  lists, in its order, each with what a call without arguments returns or raises, and how a
  resampler prints. And what \<^verbatim>\<open>pd.Series(index=data.index, data=transform(data.values))\<close>
  gives when \<^verbatim>\<open>data\<close> is no series.
\<close>

record env =
  utcoffset :: "tzinfo \<Rightarrow> int"
  read_pickle :: "string \<Rightarrow> error + (string \<times> series) list"
  timedelta_to_pandas_freq_str :: "timedelta \<Rightarrow> error + string"
  to_offset :: "string \<Rightarrow> error + offset"
  resample_other :: "string \<Rightarrow> (string \<times> cfg_value) list \<Rightarrow> datetime_index \<Rightarrow> val list
                       \<Rightarrow> error + resampler"
  resampler_methods :: "(string \<times> (resampler \<Rightarrow> error + pyobject)) list"
  resampler_repr :: "resampler \<Rightarrow> string"
  transform_object :: "transformation \<Rightarrow> string \<Rightarrow> error + series"

text \<open>
  \<^verbatim>\<open>data.resample(rule, **kwargs)\<close> on the index and the values of a series. With plain
  keyword arguments the bins are those of the frequency that \<open>rule\<close> reads as; a frequency
  in ticks is closed and labelled on the left by default.
\<close>

definition resample :: "env \<Rightarrow> string \<Rightarrow> (string \<times> cfg_value) list \<Rightarrow> datetime_index \<Rightarrow> val list
                          \<Rightarrow> error + resampler" where
  "resample env rule kwargs ix vs =
     (if \<not> plain_kwargs kwargs then resample_other env rule kwargs ix vs
      else case to_offset env rule of
        Inl e \<Rightarrow> Inl e
      | Inr off \<Rightarrow>
          (let f = delta off in
           if f \<le> 0 then Inl (ValueError ''Invalid frequency'')
           else case stamps ix of
             [] \<Rightarrow> Inr \<lparr>bin_index = ix\<lparr>freq := Some off\<rparr>, buckets = []\<rparr>
           | t # ts \<Rightarrow>
               (let cl = (case side_of (map_of kwargs ''closed'') of Some (Some c) \<Rightarrow> c | _ \<Rightarrow> Left);
                    lb = (case side_of (map_of kwargs ''label'') of Some (Some l) \<Rightarrow> l | _ \<Rightarrow> Left);
                    zone_offset = (case tz ix of None \<Rightarrow> 0 | Some z \<Rightarrow> utcoffset env z);
                    (fres, n) = bin_edges zone_offset cl f (fold min ts t) (fold max ts t);
                    los = map (\<lambda>k. fres + int k * f) [0..<n]
                in Inr \<lparr>bin_index = ix\<lparr>stamps := map (\<lambda>lo. if lb = Right then lo + f else lo) los,
                                         freq := Some off\<rparr>,
                         buckets = map (\<lambda>lo. bucket cl (stamps ix) vs lo (lo + f)) los\<rparr>)))"

text \<open>\<^verbatim>\<open>resampler.mean()\<close>: a series over the bins, the mean of every bucket.\<close>

definition mean_of_buckets :: "resampler \<Rightarrow> pyobject" where
  "mean_of_buckets r = PySeries \<lparr>index = DatetimeIndex (bin_index r), vals = map mean (buckets r)\<rparr>"

section \<open>Series specs\<close>

text \<open>A row of the query's result: the columns \<^verbatim>\<open>datetime\<close>, \<^verbatim>\<open>value\<close> and
  \<^verbatim>\<open>horizon\<close>, each possibly null.\<close>

record db_row =
  row_datetime :: "int option"
  row_value :: val
  row_horizon :: "int option"

text \<open>A query: the table it reads, its rendered statement, and the rows \<^verbatim>\<open>query.all()\<close> returns.\<close>

record query =
  tablename :: string
  statement :: string
  all_rows :: "db_row list"

text \<open>
  The subclasses differ in where the raw data comes from. The base class and
  \<^verbatim>\<open>CSVFileSeriesSpecs\<close> have no data source of their own.
\<close>

datatype source =
    NoData
  | ObjectData series
  | DFFile string "string option"
  | DBQuery query

record series_specs =
  name :: string
  original_tz :: "tzinfo option"
  transformation :: "transformation option"
  resampling_config :: "resampling_config option"
  series_type :: string
  source :: source

text \<open>
  The constructors. \<^verbatim>\<open>SeriesSpecs.__init__\<close> stores its arguments and the name of
  the class under \<^verbatim>\<open>__series_type__\<close>; a subclass adds its data source.
  \<^verbatim>\<open>ObjectSeriesSpecs\<close> refuses a series without a \<^verbatim>\<open>DatetimeIndex\<close>. The engine of a
  \<^verbatim>\<open>DBSeriesSpecs\<close> is a handle that no method of the class reads, and is left out.
\<close>

definition SeriesSpecs_init :: "string \<Rightarrow> string \<Rightarrow> tzinfo option \<Rightarrow> transformation option
                                  \<Rightarrow> resampling_config option \<Rightarrow> series_specs" where
  "SeriesSpecs_init class_name nm otz tr rc =
     \<lparr>name = nm, original_tz = otz, transformation = tr, resampling_config = rc,
      series_type = class_name, source = NoData\<rparr>"

definition please_provide_datetime_index :: "string \<Rightarrow> string" where
  "please_provide_datetime_index type_name =
     ''Please provide a DatetimeIndex. Only found '' @ type_name @ ''.''"


definition DFFileSeriesSpecs_init :: "string \<Rightarrow> string \<Rightarrow> string option \<Rightarrow> tzinfo option
                                        \<Rightarrow> transformation option \<Rightarrow> resampling_config option
                                        \<Rightarrow> series_specs" where
  "DFFileSeriesSpecs_init file_path nm column otz tr rc =
     (SeriesSpecs_init ''DFFileSeriesSpecs'' nm otz tr rc)\<lparr>source := DFFile file_path column\<rparr>"

definition DBSeriesSpecs_init :: "query \<Rightarrow> string \<Rightarrow> tzinfo option \<Rightarrow> transformation option
                                    \<Rightarrow> resampling_config option \<Rightarrow> series_specs" where
  "DBSeriesSpecs_init q nm otz tr rc =
     (SeriesSpecs_init ''DBSeriesSpecs'' nm otz tr rc)\<lparr>source := DBQuery q\<rparr>"

section \<open>Raw data of each kind of spec\<close>

definition newlines :: string where
  "newlines = [CHR 0x0A, CHR 0x0A]"

definition no_values_in_database :: "query \<Rightarrow> string" where
  "no_values_in_database q =
     ''No values found in database for the requested '' @ tablename q
     @ '' data. It's no use to continue I'm afraid. Here's a print-out of the database query:''
     @ newlines @ statement q @ newlines"

definition nan_values_in_database :: "query \<Rightarrow> string" where
  "nan_values_in_database q =
     ''Nan values found in database for the requested '' @ tablename q
     @ '' data. It's no use to continue I'm afraid. Here's a print-out of the database query:''
     @ newlines @ statement q @ newlines"

text \<open>A row without a null in any column, as the triple (datetime, value, horizon).\<close>

definition complete_row :: "db_row \<Rightarrow> (int \<times> val \<times> int) option" where
  "complete_row r =
     (case row_datetime r of
        None \<Rightarrow> None
      | Some t \<Rightarrow> (case row_horizon r of
                    None \<Rightarrow> None
                  | Some h \<Rightarrow> if isnull (row_value r) then None else Some (t, row_value r, h)))"

text \<open>\<^verbatim>\<open>drop_duplicates(subset=["datetime"], keep="first")\<close>: of the rows with one
  datetime, the first in the frame's order stays.\<close>

fun drop_duplicates :: "int list \<Rightarrow> (int \<times> val \<times> int) list \<Rightarrow> (int \<times> val \<times> int) list" where
  "drop_duplicates seen [] = []"
| "drop_duplicates seen (r # rs) =
     (if fst r \<in> set seen then drop_duplicates seen rs
      else r # drop_duplicates (fst r # seen) rs)"

text \<open>
  \<^verbatim>\<open>DBSeriesSpecs._load_series\<close>. The frame is the query's rows with the datetime
  column in UTC. \<^verbatim>\<open>df.isnull().values.any()\<close> holds when some row is not complete.
  \<^verbatim>\<open>sort_values\<close> is taken as a stable sort by the one column.
\<close>

definition db_load_series :: "query \<Rightarrow> error + series" where
  "db_load_series q =
     (if all_rows q = [] then Inl (ValueError (no_values_in_database q))
      else case those (map complete_row (all_rows q)) of
        None \<Rightarrow> Inl (ValueError (nan_values_in_database q))
      | Some df \<Rightarrow>
          (let series = sort_key fst (drop_duplicates [] (sort_key (\<lambda>r. snd (snd r)) df))
           in Inr \<lparr>index = DatetimeIndex \<lparr>stamps = map fst series, tz = Some utc, freq = None\<rparr>,
                   vals = map (\<lambda>r. fst (snd r)) series\<rparr>))"

text \<open>\<^verbatim>\<open>_load_series\<close> of each class.\<close>

definition private_load_series :: "env \<Rightarrow> series_specs \<Rightarrow> error + series" where
  "private_load_series env s =
     (case source s of
        NoData \<Rightarrow> Inr empty_series
      | ObjectData d \<Rightarrow> Inr d
      | DFFile file_path column \<Rightarrow>
          (case read_pickle env file_path of
             Inl e \<Rightarrow> Inl e
           | Inr df \<Rightarrow>
               (case column of
                  None \<Rightarrow> Inl (KeyError ''None'')
                | Some c \<Rightarrow> (case map_of df c of None \<Rightarrow> Inl (KeyError c) | Some d \<Rightarrow> Inr d)))
      | DBQuery q \<Rightarrow> db_load_series q)"

section \<open>Loading a series\<close>

definition no_datetime_index :: "string \<Rightarrow> string" where
  "no_datetime_index type_name = ''Loaded series has no DatetimeIndex, but '' @ type_name"

definition no_values_found :: string where
  "no_values_found = ''No values found in requested %s data. It's no use to continue I'm afraid.''"

definition nan_values_found :: string where
  "nan_values_found = ''Nan values found in the requested %s data. It's no use to continue I'm afraid.''"

definition none_has_no_freqstr :: string where
  "none_has_no_freqstr =
     [CHR 0x27] @ ''NoneType'' @ [CHR 0x27] @ '' object has no attribute ''
     @ [CHR 0x27] @ ''freqstr'' @ [CHR 0x27]"

definition cannot_find_aggregation :: "string \<Rightarrow> string \<Rightarrow> string" where
  "cannot_find_aggregation agg_name repr =
     ''Cannot find resampling aggregation '' @ agg_name @ '' on '' @ repr"

text \<open>\<^verbatim>\<open>data.resample\<close> on a series: only an index of dates can be resampled.\<close>

definition series_resample :: "env \<Rightarrow> series \<Rightarrow> string \<Rightarrow> (string \<times> cfg_value) list
                                 \<Rightarrow> error + resampler" where
  "series_resample env d rule kwargs =
     (case index d of
        OtherIndex type_name \<Rightarrow>
          Inl (TypeError (''Only valid with DatetimeIndex, but got an instance of '' @ type_name))
      | DatetimeIndex ix \<Rightarrow> resample env rule kwargs ix (vals d))"

text \<open>
  \<^verbatim>\<open>resample_data\<close>. Without a configuration the mean is taken. With one, every item
  but \<^verbatim>\<open>aggregation\<close> goes to \<^verbatim>\<open>resample\<close> as a keyword argument; the aggregation is
  looked up by name among the bound methods of the resampler, the first of that name is
  called, and what it returns is the result, whatever it is.
\<close>

definition resample_data :: "env \<Rightarrow> series_specs \<Rightarrow> series \<Rightarrow> timedelta \<Rightarrow> error + pyobject" where
  "resample_data env s d expected_frequency =
     (case resampling_config s of
        None \<Rightarrow>
          (case timedelta_to_pandas_freq_str env expected_frequency of
             Inl e \<Rightarrow> Inl e
           | Inr rule \<Rightarrow>
               (case series_resample env d rule [] of
                  Inl e \<Rightarrow> Inl e
                | Inr data_resampler \<Rightarrow> Inr (mean_of_buckets data_resampler)))
      | Some cfg \<Rightarrow>
          (case timedelta_to_pandas_freq_str env expected_frequency of
             Inl e \<Rightarrow> Inl e
           | Inr rule \<Rightarrow>
               (case series_resample env d rule (filter (\<lambda>(k, v). k \<noteq> ''aggregation'') cfg) of
                  Inl e \<Rightarrow> Inl e
                | Inr data_resampler \<Rightarrow>
                    (case map_of cfg ''aggregation'' of
                       None \<Rightarrow> Inr (mean_of_buckets data_resampler)
                     | Some wanted \<Rightarrow>
                         (case find (\<lambda>(agg_name, agg_method). wanted = CStr agg_name)
                                 (resampler_methods env) of
                            Some (agg_name, agg_method) \<Rightarrow> agg_method data_resampler
                          | None \<Rightarrow>
                              Inl (IncompatibleModelSpecs
                                     (cannot_find_aggregation (cfg_str wanted)
                                        (resampler_repr env data_resampler))))))))"

text \<open>
  The series that \<^verbatim>\<open>_load_series\<close> of an \<^verbatim>\<open>ObjectSeriesSpecs\<close> returns is the stored
  object itself, so assigning to its index changes the spec's data; the other classes
  build a fresh series on every load.
\<close>

definition store_back :: "series_specs \<Rightarrow> series \<Rightarrow> series_specs" where
  "store_back s d = (case source s of ObjectData _ \<Rightarrow> s\<lparr>source := ObjectData d\<rparr> | _ \<Rightarrow> s)"

text \<open>
  \<^verbatim>\<open>pd.Series(index=data.index, data=self.transformation.transform(data.values))\<close>, when a
  transformation is set.
\<close>

definition apply_transformation :: "env \<Rightarrow> transformation option \<Rightarrow> pyobject \<Rightarrow> error + pyobject" where
  "apply_transformation env tr data =
     (case tr of
        None \<Rightarrow> Inr data
      | Some t \<Rightarrow>
          (case data of
             PyOther r \<Rightarrow>
               (case transform_object env t r of Inl e \<Rightarrow> Inl e | Inr d \<Rightarrow> Inr (PySeries d))
           | PySeries d \<Rightarrow>
               (case t (vals d) of
                  Inl e \<Rightarrow> Inl e
                | Inr ws \<Rightarrow>
                    (case index d of
                       DatetimeIndex ix \<Rightarrow>
                         if length ws = length (stamps ix)
                         then Inr (PySeries \<lparr>index = index d, vals = ws\<rparr>)
                         else Inl (ValueError ''Length of passed values does not match the index'')
                     | OtherIndex _ \<Rightarrow> Inr (PySeries \<lparr>index = index d, vals = ws\<rparr>)))))"

text \<open>
  \<^verbatim>\<open>load_series\<close>: the result or the exception, and the spec as the call leaves it. The
  frequency of the data is compared with the expected one as strings, \<^verbatim>\<open>freqstr\<close>
  against what \<^verbatim>\<open>timedelta_to_pandas_freq_str\<close> returns.
\<close>

definition load_series :: "env \<Rightarrow> series_specs \<Rightarrow> timedelta \<Rightarrow> (error + pyobject) \<times> series_specs" where
  "load_series env s expected_frequency =
     (case private_load_series env s of
        Inl e \<Rightarrow> (Inl e, s)
      | Inr d \<Rightarrow>
          (case index d of
             OtherIndex type_name \<Rightarrow> (Inl (IncompatibleModelSpecs (no_datetime_index type_name)), s)
           | DatetimeIndex ix \<Rightarrow>
               (let (d1, ix1, s1) =
                      (if tz ix = None
                       then (let ix' = ix\<lparr>tz := Some utc\<rparr>; d' = d\<lparr>index := DatetimeIndex ix'\<rparr>
                             in (d', ix', store_back (s\<lparr>original_tz := Some utc\<rparr>) d'))
                       else (d, ix, s\<lparr>original_tz := tz ix\<rparr>))
                in if stamps ix1 = [] then (Inl (ValueError no_values_found), s1)
                   else if list_ex isnull (vals d1) then (Inl (ValueError nan_values_found), s1)
                   else case freq ix1 of
                     None \<Rightarrow> (Inl (AttributeError none_has_no_freqstr), s1)
                   | Some g \<Rightarrow>
                       (case timedelta_to_pandas_freq_str env expected_frequency of
                          Inl e \<Rightarrow> (Inl e, s1)
                        | Inr rule \<Rightarrow>
                            (case (if freqstr g \<noteq> rule
                                   then resample_data env s1 d1 expected_frequency
                                   else Inr (PySeries d1)) of
                               Inl e \<Rightarrow> (Inl e, s1)
                             | Inr data \<Rightarrow>
                                 (apply_transformation env (transformation s1) data, s1))))))"

section \<open>Sample inputs\<close>

text \<open>
  An environment with two zones and no files, where the helper and pandas know the
  frequencies of half an hour, one hour and two hours, and sixty minutes as pandas prints
  it; \<^verbatim>\<open>resample\<close> refuses other keyword arguments; the resampler offers
  \<^verbatim>\<open>count\<close>, \<^verbatim>\<open>first\<close> and \<^verbatim>\<open>mean\<close>. And hourly series of three samples from
  2019-01-22 15:00 UTC.
\<close>

definition first_of_bucket :: "val list \<Rightarrow> val" where
  "first_of_bucket vs = (case filter (\<lambda>v. \<not> isnull v) vs of [] \<Rightarrow> NaN | v # _ \<Rightarrow> v)"

definition count_of_bucket :: "val list \<Rightarrow> val" where
  "count_of_bucket vs = Num (of_nat (length (filter (\<lambda>v. \<not> isnull v) vs)))"

definition reduce_buckets :: "(val list \<Rightarrow> val) \<Rightarrow> resampler \<Rightarrow> error + pyobject" where
  "reduce_buckets g r = Inr (PySeries \<lparr>index = DatetimeIndex (bin_index r), vals = map g (buckets r)\<rparr>)"

definition sample_env :: env where
  "sample_env =
     \<lparr>utcoffset = (\<lambda>z. if z = ''Etc/GMT-1'' then 3600 else 0),
      read_pickle = (\<lambda>file_path. Inl (ValueError ''no such file'')),
      timedelta_to_pandas_freq_str =
        (\<lambda>td. if td = 1800 then Inr ''30T'' else if td = 3600 then Inr ''H''
               else if td = 7200 then Inr ''2H'' else Inl (ValueError ''no such frequency'')),
      to_offset =
        (\<lambda>rule. if rule = ''30T'' then Inr (Tick 30 Minute) else if rule = ''H'' then Inr (Tick 1 Hour)
                 else if rule = ''2H'' then Inr (Tick 2 Hour)
                 else if rule = ''60T'' then Inr (Tick 60 Minute)
                 else Inl (ValueError ''Invalid frequency'')),
      resample_other =
        (\<lambda>rule kwargs ix vs. Inl (TypeError ''resample() got an unexpected keyword argument'')),
      resampler_methods =
        [(''count'', reduce_buckets count_of_bucket), (''first'', reduce_buckets first_of_bucket),
         (''mean'', reduce_buckets mean)],
      resampler_repr = (\<lambda>r. ''DatetimeIndexResampler''),
      transform_object = (\<lambda>t r. Inl (AttributeError ''object has no attribute index''))\<rparr>"

definition hourly_index :: "tzinfo option \<Rightarrow> datetime_index" where
  "hourly_index z =
     \<lparr>stamps = [1548169200, 1548172800, 1548176400], tz = z, freq = Some (Tick 1 Hour)\<rparr>"

definition hourly_series :: "tzinfo option \<Rightarrow> val list \<Rightarrow> series" where
  "hourly_series z vs = \<lparr>index = DatetimeIndex (hourly_index z), vals = vs\<rparr>"

text \<open>The same hours under a frequency of sixty minutes.\<close>

definition sixty_minutes_series :: "val list \<Rightarrow> series" where
  "sixty_minutes_series vs =
     \<lparr>index = DatetimeIndex ((hourly_index (Some utc))\<lparr>freq := Some (Tick 60 Minute)\<rparr>), vals = vs\<rparr>"

definition object_specs :: "series \<Rightarrow> resampling_config option \<Rightarrow> series_specs" where
  "object_specs d rc =
     \<lparr>name = ''my_outcome'', original_tz = None, transformation = None, resampling_config = rc,
      series_type = ''ObjectSeriesSpecs'', source = ObjectData d\<rparr>"

definition bogus_config :: resampling_config where
  "bogus_config = [(''closed'', CStr ''left''), (''aggregation'', CStr ''bogus'')]"


section \<open>Serialized series specs\<close>

text \<open>
  A JSON document as \<^verbatim>\<open>json.loads\<close> returns it. An object is a \<^verbatim>\<open>dict\<close>, kept as the
  list of its items, every key once.
\<close>

datatype json =
    JNull
  | JBool bool
  | JNumber rat
  | JString string
  | JArray "json list"
  | JObject "(string \<times> json) list"

text \<open>
  The names bound in the module's namespace, \<^verbatim>\<open>globals()\<close>: the five classes of series
  specs, and everything else the module imports or defines.
\<close>

datatype global = SeriesClass string | OtherGlobal string

definition series_classes :: "string list" where
  "series_classes =
     [''SeriesSpecs'', ''ObjectSeriesSpecs'', ''CSVFileSeriesSpecs'', ''DFFileSeriesSpecs'',
      ''DBSeriesSpecs'']"

definition other_globals :: "string list" where
  "other_globals =
     [''__name__'', ''__doc__'', ''__package__'', ''__loader__'', ''__spec__'', ''__file__'',
      ''__cached__'', ''__builtins__'',
      ''List'', ''Optional'', ''Tuple'', ''Type'', ''Union'', ''Dict'', ''Any'',
      ''datetime'', ''timedelta'', ''tzinfo'', ''pformat'', ''json'', ''warnings'', ''logging'',
      ''inspect'', ''pytz'', ''dateutil'', ''np'', ''pd'', ''Engine'', ''Query'', ''postgresql'',
      ''render_query'', ''tz_aware_utc_now'', ''timedelta_to_pandas_freq_str'',
      ''timedelta_fits_into'', ''IncompatibleModelSpecs'', ''Transformation'',
      ''DEFAULT_RATIO_TRAINING_TESTING_DATA'', ''DEFAULT_REMODELING_FREQUENCY'', ''logger'',
      ''ModelSpecs'', ''parse_series_specs'', ''load_series_specs_from_json'']"

definition module_globals :: "string \<Rightarrow> global option" where
  "module_globals n =
     (if n \<in> set series_classes then Some (SeriesClass n)
      else if n \<in> set other_globals then Some (OtherGlobal n)
      else None)"

text \<open>
  What decoding reads from outside the module: the JSON parser, \<^verbatim>\<open>pd.read_json\<close> with
  \<^verbatim>\<open>typ="series"\<close>, the time zone that pandas makes of the argument of
  \<^verbatim>\<open>tz_localize\<close>, the offsets of the zones, and what calling a global that is no class of
  series specs with keyword arguments returns (how the object prints) or raises.
\<close>

record decoder_env =
  json_loads :: "string \<Rightarrow> error + json"
  read_json :: "json \<Rightarrow> error + series"
  maybe_get_tz :: "json \<Rightarrow> error + tzinfo"
  zone_offset :: "tzinfo \<Rightarrow> int"
  call_other :: "string \<Rightarrow> (string \<times> json) list \<Rightarrow> error + string"

text \<open>
  A decoded spec holds what the document held: the constructor stores its arguments as
  they come, so the attributes are JSON values, the data of an \<^verbatim>\<open>ObjectSeriesSpecs\<close>
  apart, which is the series read from the document.
\<close>

datatype decoded_source =
    NoSource
  | DataOf series
  | FileOf json json
  | QueryOf json json

record decoded_specs =
  d_name :: json
  d_original_tz :: json
  d_transformation :: json
  d_resampling_config :: json
  d_series_type :: string
  d_source :: decoded_source

text \<open>What \<^verbatim>\<open>parse_series_specs\<close> hands back: a spec as given or built, a decoded spec, or
  the object that calling another global returned.\<close>

datatype specs_object = Built series_specs | Decoded decoded_specs | Foreign string

text \<open>The key of a \<^verbatim>\<open>KeyError\<close>, as text.\<close>

fun key_text :: "json \<Rightarrow> string" where
  "key_text JNull = ''None''"
| "key_text (JBool b) = (if b then ''True'' else ''False'')"
| "key_text (JString k) = k"
| "key_text _ = ''number''"

text \<open>\<^verbatim>\<open>globals()[tag]\<close>: a list or a dict cannot be a key, any other value that is not
  bound is a \<^verbatim>\<open>KeyError\<close>.\<close>

definition lookup_global :: "json \<Rightarrow> error + global" where
  "lookup_global tag =
     (case tag of
        JString n \<Rightarrow> (case module_globals n of None \<Rightarrow> Inl (KeyError n) | Some g \<Rightarrow> Inr g)
      | JArray _ \<Rightarrow> Inl (TypeError ''unhashable type: list'')
      | JObject _ \<Rightarrow> Inl (TypeError ''unhashable type: dict'')
      | _ \<Rightarrow> Inl (KeyError (key_text tag)))"

text \<open>\<^verbatim>\<open>index.tz_localize(None)\<close> on an index with a zone: the wall-clock readings in that
  zone, without the zone.\<close>

definition tz_localize_none :: "(tzinfo \<Rightarrow> int) \<Rightarrow> datetime_index \<Rightarrow> datetime_index" where
  "tz_localize_none offset ix =
     (case tz ix of
        None \<Rightarrow> ix
      | Some z \<Rightarrow> ix\<lparr>stamps := map (\<lambda>t. t + offset z) (stamps ix), tz := None\<rparr>)"

definition no_tz_localize :: "string \<Rightarrow> string" where
  "no_tz_localize type_name =
     [CHR 0x27] @ type_name @ [CHR 0x27] @ '' object has no attribute ''
     @ [CHR 0x27] @ ''tz_localize'' @ [CHR 0x27]"

text \<open>
  The branch for an \<^verbatim>\<open>ObjectSeriesSpecs\<close>: the series is read from the entry
  \<^verbatim>\<open>data\<close>, and its index is localized to the entry \<^verbatim>\<open>original_tz\<close>.
\<close>

definition decode_data :: "decoder_env \<Rightarrow> (string \<times> json) list \<Rightarrow> error + series" where
  "decode_data env json_repr =
     (case map_of json_repr ''data'' of
        None \<Rightarrow> Inl (KeyError ''data'')
      | Some j \<Rightarrow>
          (case read_json env j of
             Inl e \<Rightarrow> Inl e
           | Inr d \<Rightarrow>
               (case index d of
                  OtherIndex type_name \<Rightarrow> Inl (AttributeError (no_tz_localize type_name))
                | DatetimeIndex ix \<Rightarrow>
                    (case map_of json_repr ''original_tz'' of
                       None \<Rightarrow> Inl (KeyError ''original_tz'')
                     | Some z \<Rightarrow>
                         if z = JNull
                         then Inr (d\<lparr>index := DatetimeIndex (tz_localize_none (zone_offset env) ix)\<rparr>)
                         else if tz ix \<noteq> None
                         then Inl (TypeError ''Already tz-aware, use tz_convert to convert.'')
                         else (case maybe_get_tz env z of
                                 Inl e \<Rightarrow> Inl e
                               | Inr zone \<Rightarrow>
                                   (case tz_localize (zone_offset env) zone ix of
                                      Inl e \<Rightarrow> Inl e
                                    | Inr ix' \<Rightarrow> Inr (d\<lparr>index := DatetimeIndex ix'\<rparr>)))))))"

text \<open>
  Calling a constructor with keyword arguments only: a keyword that is no parameter is
  refused, and so is a call that leaves a parameter without a default unset.
\<close>

definition unexpected_keyword :: "string \<Rightarrow> string" where
  "unexpected_keyword k =
     ''__init__() got an unexpected keyword argument '' @ [CHR 0x27] @ k @ [CHR 0x27]"

definition missing_arguments :: "string list \<Rightarrow> string" where
  "missing_arguments ks = ''__init__() missing required positional arguments: '' @ concat (map (\<lambda>k. '' '' @ k) ks)"

definition bind_arguments :: "string list \<Rightarrow> string list \<Rightarrow> (string \<times> json) list
                                \<Rightarrow> error + (string \<Rightarrow> json option)" where
  "bind_arguments required optional kwargs =
     (case filter (\<lambda>k. k \<notin> set (required @ optional)) (map fst kwargs) of
        k # _ \<Rightarrow> Inl (TypeError (unexpected_keyword k))
      | [] \<Rightarrow>
          (case filter (\<lambda>k. k \<notin> set (map fst kwargs)) required of
             [] \<Rightarrow> Inr (map_of kwargs)
           | ks \<Rightarrow> Inl (TypeError (missing_arguments ks))))"

definition argument :: "(string \<Rightarrow> json option) \<Rightarrow> string \<Rightarrow> json \<Rightarrow> json" where
  "argument args k dflt = (case args k of None \<Rightarrow> dflt | Some v \<Rightarrow> v)"

definition common_parameters :: "string list" where
  "common_parameters = [''original_tz'', ''transformation'', ''resampling_config'']"

text \<open>\<^verbatim>\<open>SeriesSpecs.__init__\<close> on bound arguments; the default of \<^verbatim>\<open>original_tz\<close> differs
  between the classes.\<close>

definition decoded_init :: "string \<Rightarrow> (string \<Rightarrow> json option) \<Rightarrow> json \<Rightarrow> json \<Rightarrow> decoded_specs" where
  "decoded_init class_name args default_name default_tz =
     \<lparr>d_name = argument args ''name'' default_name,
      d_original_tz = argument args ''original_tz'' default_tz,
      d_transformation = argument args ''transformation'' JNull,
      d_resampling_config = argument args ''resampling_config'' JNull,
      d_series_type = class_name,
      d_source = NoSource\<rparr>"

text \<open>
  \<^verbatim>\<open>series_class(**kwargs)\<close>, for each class and for any other global. The data of an
  \<^verbatim>\<open>ObjectSeriesSpecs\<close> is the series that replaced the entry \<^verbatim>\<open>data\<close>.
\<close>

definition construct :: "decoder_env \<Rightarrow> global \<Rightarrow> (string \<times> json) list \<Rightarrow> series option
                           \<Rightarrow> error + specs_object" where
  "construct env series_class kwargs data =
     (case series_class of
        OtherGlobal n \<Rightarrow>
          (case call_other env n kwargs of Inl e \<Rightarrow> Inl e | Inr r \<Rightarrow> Inr (Foreign r))
      | SeriesClass c \<Rightarrow>
          if c = ''ObjectSeriesSpecs'' then
            (case bind_arguments [''name''] common_parameters
                    (filter (\<lambda>(k, v). k \<noteq> ''data'') kwargs) of
               Inl e \<Rightarrow> Inl e
             | Inr args \<Rightarrow>
                 (case data of
                    None \<Rightarrow> Inl (TypeError (missing_arguments [''data'']))
                  | Some d \<Rightarrow>
                      (case index d of
                         OtherIndex type_name \<Rightarrow>
                           Inl (IncompatibleModelSpecs (please_provide_datetime_index type_name))
                       | DatetimeIndex _ \<Rightarrow>
                           Inr (Decoded ((decoded_init c args JNull JNull)\<lparr>d_source := DataOf d\<rparr>)))))
          else if c = ''DFFileSeriesSpecs'' then
            (case bind_arguments [''file_path'', ''name''] (''column'' # common_parameters) kwargs of
               Inl e \<Rightarrow> Inl e
             | Inr args \<Rightarrow>
                 Inr (Decoded ((decoded_init c args JNull JNull)
                        \<lparr>d_source := FileOf (argument args ''file_path'' JNull)
                                             (argument args ''column'' JNull)\<rparr>)))
          else if c = ''DBSeriesSpecs'' then
            (case bind_arguments [''db_engine'', ''query''] (''name'' # common_parameters) kwargs of
               Inl e \<Rightarrow> Inl e
             | Inr args \<Rightarrow>
                 Inr (Decoded ((decoded_init c args (JString ''value'') (JString utc))
                        \<lparr>d_source := QueryOf (argument args ''db_engine'' JNull)
                                              (argument args ''query'' JNull)\<rparr>)))
          else
            (case bind_arguments [''name''] common_parameters kwargs of
               Inl e \<Rightarrow> Inl e
             | Inr args \<Rightarrow> Inr (Decoded (decoded_init c args JNull JNull))))"

definition not_indexable_by_str :: "json \<Rightarrow> string" where
  "not_indexable_by_str j =
     (case j of
        JArray _ \<Rightarrow> ''list indices must be integers or slices, not str''
      | JString _ \<Rightarrow> ''string indices must be integers''
      | _ \<Rightarrow> ''object is not subscriptable'')"

text \<open>\<^verbatim>\<open>load_series_specs_from_json\<close>.\<close>

definition load_series_specs_from_json :: "decoder_env \<Rightarrow> string \<Rightarrow> error + specs_object" where
  "load_series_specs_from_json env s =
     (case json_loads env s of
        Inl e \<Rightarrow> Inl e
      | Inr (JObject json_repr) \<Rightarrow>
          (case map_of json_repr ''__series_type__'' of
             None \<Rightarrow> Inl (KeyError ''__series_type__'')
           | Some tag \<Rightarrow>
               (case lookup_global tag of
                  Inl e \<Rightarrow> Inl e
                | Inr series_class \<Rightarrow>
                    (let kwargs = filter (\<lambda>(k, v). take 2 k \<noteq> ''__'') json_repr in
                     if series_class = SeriesClass ''ObjectSeriesSpecs''
                     then (case decode_data env json_repr of
                             Inl e \<Rightarrow> Inl e
                           | Inr d \<Rightarrow> construct env series_class kwargs (Some d))
                     else construct env series_class kwargs None)))
      | Inr j \<Rightarrow> Inl (TypeError (not_indexable_by_str j)))"

text \<open>
  Modelled from the spec: what an encoder has to supply, how a series is written, with
  "values+index losslessly (UTC-normalized)", and how the parameters of a transformation
  are. The module itself has \<^verbatim>\<open>as_dict\<close> only, which returns the attributes as they are.
\<close>

record encoder =
  to_json :: "series \<Rightarrow> json"
  params_json :: "transformation \<Rightarrow> json"

text \<open>Modelled from the spec: a value of the resampling configuration, written as JSON.\<close>

fun cfg_json :: "cfg_value \<Rightarrow> json" where
  "cfg_json CNone = JNull"
| "cfg_json (CStr x) = JString x"
| "cfg_json (COther x) = JString x"

text \<open>
  Modelled from the spec: the tagged representation of a series spec is "a discriminator
  field naming the concrete source kind, plus that kind's constructor fields, plus
  original_tz as a timezone name", and "an in-memory series variant must serialize its
  values+index losslessly (UTC-normalized)". The fields are the attributes that
  \<^verbatim>\<open>as_dict\<close> returns, in its order.
\<close>

definition as_tagged :: "encoder \<Rightarrow> series_specs \<Rightarrow> json" where
  "as_tagged enc s =
     JObject
       ([(''name'', JString (name s)),
         (''original_tz'', case original_tz s of None \<Rightarrow> JNull | Some z \<Rightarrow> JString z),
         (''transformation'',
            case transformation s of None \<Rightarrow> JNull | Some t \<Rightarrow> params_json enc t),
         (''resampling_config'',
            case resampling_config s of
              None \<Rightarrow> JNull
            | Some cfg \<Rightarrow> JObject (map (\<lambda>(k, v). (k, cfg_json v)) cfg)),
         (''__series_type__'', JString (series_type s))]
        @ (case source s of
             NoData \<Rightarrow> []
           | ObjectData d \<Rightarrow> [(''data'', to_json enc d)]
           | DFFile file_path column \<Rightarrow>
               [(''file_path'', JString file_path),
                (''column'', case column of None \<Rightarrow> JNull | Some c \<Rightarrow> JString c)]
           | DBQuery q \<Rightarrow> [(''query'', JString (statement q))]))"

text \<open>
  A document with a discriminator that the module does not know; and a spec over the
  hourly series in a zone one hour ahead of UTC, as a load leaves it, with its document.
\<close>

definition quoted :: "string \<Rightarrow> string" where
  "quoted x = [CHR 0x22] @ x @ [CHR 0x22]"

definition escaped :: "string \<Rightarrow> string" where
  "escaped x = concat (map (\<lambda>c. if c = CHR 0x22 then [CHR 0x5C, CHR 0x22] else [c]) x)"

definition unknown_kind_text :: string where
  "unknown_kind_text =
     ''{'' @ quoted ''__series_type__'' @ '': '' @ quoted ''TableSeriesSpecs'' @ '', ''
     @ quoted ''name'' @ '': '' @ quoted ''y'' @ ''}''"

definition unknown_kind :: json where
  "unknown_kind = JObject [(''__series_type__'', JString ''TableSeriesSpecs''), (''name'', JString ''y'')]"

definition ahead_specs :: series_specs where
  "ahead_specs =
     (object_specs (hourly_series (Some ''Etc/GMT-1'') [Num 0, Num 1, Num 2]) None)
       \<lparr>original_tz := Some ''Etc/GMT-1''\<rparr>"

definition ahead_data_text :: string where
  "ahead_data_text =
     ''{'' @ quoted ''1548169200000'' @ '':0.0,'' @ quoted ''1548172800000'' @ '':1.0,''
     @ quoted ''1548176400000'' @ '':2.0}''"

definition sample_encoder :: encoder where
  "sample_encoder =
     \<lparr>to_json = (\<lambda>d. JString (if d = hourly_series (Some ''Etc/GMT-1'') [Num 0, Num 1, Num 2]
                                then ahead_data_text else ''{}'')),
      params_json = (\<lambda>t. JObject [])\<rparr>"

definition ahead_text :: string where
  "ahead_text =
     ''{'' @ quoted ''name'' @ '': '' @ quoted ''my_outcome'' @ '', ''
     @ quoted ''original_tz'' @ '': '' @ quoted ''Etc/GMT-1'' @ '', ''
     @ quoted ''transformation'' @ '': null, '' @ quoted ''resampling_config'' @ '': null, ''
     @ quoted ''__series_type__'' @ '': '' @ quoted ''ObjectSeriesSpecs'' @ '', ''
     @ quoted ''data'' @ '': '' @ quoted (escaped ahead_data_text) @ ''}''"

definition sample_decoder_env :: decoder_env where
  "sample_decoder_env =
     \<lparr>json_loads =
        (\<lambda>s. if s = unknown_kind_text then Inr unknown_kind
              else if s = ahead_text then Inr (as_tagged sample_encoder ahead_specs)
              else Inl (ValueError ''Expecting value'')),
      read_json =
        (\<lambda>j. if j = JString ahead_data_text
              then Inr \<lparr>index = DatetimeIndex
                                  \<lparr>stamps = [1548169200, 1548172800, 1548176400], tz = None,
                                   freq = None\<rparr>,
                        vals = [Num 0, Num 1, Num 2]\<rparr>
              else Inl (ValueError ''Expected object or value'')),
      maybe_get_tz =
        (\<lambda>j. case j of JString z \<Rightarrow> Inr z | _ \<Rightarrow> Inl (TypeError ''not a time zone'')),
      zone_offset = (\<lambda>z. if z = ''Etc/GMT-1'' then 3600 else 0),
      call_other = (\<lambda>n kwargs. Inl (TypeError ''object is not callable''))\<rparr>"

section \<open>Model specs\<close>

text \<open>
  A \<^verbatim>\<open>datetime\<close>: the instant in UTC seconds when it has a zone, the wall-clock reading
  when it has none. Two of them can be subtracted when both have a zone or neither has.
\<close>

record datetime =
  seconds :: int
  zone :: "tzinfo option"












record model_specs =
  outcome_var :: specs_object
  model_type :: string
  model_params :: "(string \<times> json) list"
  frequency :: timedelta
  horizon :: timedelta
  lags :: "int list"
  regressors :: "specs_object list"
  start_of_training :: datetime
  end_of_testing :: datetime
  ratio_training_testing_data :: rat
  creation_time :: datetime
  model_filename :: "string option"
  remodel_frequency :: timedelta




section \<open>Rolling forecasts\<close>

text \<open>
  Modelled from the spec: "\<open>make_rolling_forecasts(start, end, specs)\<close> iterates one step
  per \<open>frequency\<close> tick from \<open>start\<close> to \<open>end\<close> (exclusive of the final tick, i.e.,
  produces one forecast per tick in \<open>[start, end)\<close>)". At each step the row of the feature
  frame is built, a refit is made "whenever the elapsed time since the ModelState's
  \<open>creation_time\<close> (or since the prior refit) reaches \<open>remodel_frequency\<close>", the forecast is
  produced with the current state and appended; "ticks for which the FeatureFrame row
  cannot be completed (insufficient lag history) are skipped, not failed". The module
  \<^verbatim>\<open>forecasting\<close> of the package is not among the files; its test calls the function.
  The feature frame, the fitter and the inverse transformation are collaborators.
\<close>

type_synonym fitted_model = "val list \<Rightarrow> val"

text \<open>Modelled from the spec: a model state, "{fitted model handle, ModelSpecs}", of which
  the handle and the time of the fit are kept.\<close>

record model_state =
  handle :: fitted_model
  fitted_at :: int

text \<open>Modelled from the spec: the collaborators of the forecast engine. The row of the
  feature frame at a tick is absent when it "cannot be completed".\<close>

record forecast_env =
  feature_row :: "int \<Rightarrow> val list option"
  fit_model :: "int \<Rightarrow> fitted_model"
  back_transform :: "val \<Rightarrow> val"

text \<open>Modelled from the spec: "one step per \<open>frequency\<close> tick from \<open>start\<close> to \<open>end\<close>
  (exclusive of the final tick)". Without a positive frequency there is no tick.\<close>

definition ticks :: "int \<Rightarrow> int \<Rightarrow> timedelta \<Rightarrow> int list" where
  "ticks start stop f =
     (if f \<le> 0 then []
      else map (\<lambda>k. start + int k * f) [0..<nat ((stop - start + f - 1) div f)])"

text \<open>Modelled from the spec: one step. A tick without a complete row is skipped; otherwise
  the model is refitted when the time since the last fit "reaches \<open>remodel_frequency\<close>",
  and the forecast of the current state is appended.\<close>

definition rolling_step :: "forecast_env \<Rightarrow> model_specs \<Rightarrow> (int \<times> val) list \<times> model_state \<Rightarrow> int
                              \<Rightarrow> (int \<times> val) list \<times> model_state" where
  "rolling_step env specs acc t =
     (case feature_row env t of
        None \<Rightarrow> acc
      | Some row \<Rightarrow>
          (let state = (if remodel_frequency specs \<le> t - fitted_at (snd acc)
                        then \<lparr>handle = fit_model env t, fitted_at = t\<rparr>
                        else snd acc)
           in (fst acc @ [(t, back_transform env (handle state row))], state)))"

text \<open>Modelled from the spec: \<open>make_rolling_forecasts\<close>, the steps over the ticks in turn,
  from the state supplied at entry: "(sequence of forecasts, final ModelState)".\<close>

definition make_rolling_forecasts :: "forecast_env \<Rightarrow> int \<Rightarrow> int \<Rightarrow> model_specs \<Rightarrow> model_state
                                        \<Rightarrow> (int \<times> val) list \<times> model_state" where
  "make_rolling_forecasts env start stop specs state =
     foldl (rolling_step env specs) ([], state) (ticks start stop (frequency specs))"

text \<open>The set-up of the package's test: hourly data, lags of up to two hours, so that the
  rows of the first two hours cannot be completed.\<close>

definition sample_model_specs :: model_specs where
  "sample_model_specs =
     \<lparr>outcome_var = Built (object_specs (hourly_series (Some utc) [Num 0, Num 1, Num 2]) None),
      model_type = ''OLS'', model_params = [], frequency = 3600, horizon = 7200, lags = [1, 2],
      regressors = [],
      start_of_training = \<lparr>seconds = 1548176400, zone = Some utc\<rparr>,
      end_of_testing = \<lparr>seconds = 1548198000, zone = Some utc\<rparr>,
      ratio_training_testing_data = 2 / 3,
      creation_time = \<lparr>seconds = 1548169200, zone = Some utc\<rparr>,
      model_filename = None, remodel_frequency = 172800\<rparr>"

definition sample_forecast_env :: forecast_env where
  "sample_forecast_env =
     \<lparr>feature_row = (\<lambda>t. if t < 1548176400 then None
                           else Some [Num (of_int ((t - 1548169200) div 3600 - 1)),
                                      Num (of_int ((t - 1548169200) div 3600 - 2))]),
      fit_model = (\<lambda>t row. case row of [Num a, Num b] \<Rightarrow> Num (2 * a - b) | _ \<Rightarrow> NaN),
      back_transform = (\<lambda>v. v)\<rparr>"

definition sample_model_state :: model_state where
  "sample_model_state =
     \<lparr>handle = (\<lambda>row. case row of [Num a, Num b] \<Rightarrow> Num (2 * a - b + 1) | _ \<Rightarrow> NaN),
      fitted_at = 1548169200\<rparr>"

section \<open>Properties of loading\<close>

lemma private_load_series_config:
  "private_load_series env (s\<lparr>transformation := tr, resampling_config := rc\<rparr>)
     = private_load_series env s"
  by (simp add: private_load_series_def)

lemma list_ex_isnull: "list_ex isnull vs = (NaN \<in> set vs)"
  by (induction vs) (auto simp: isnull_def)

text \<open>
  Claim C3, as amended. When the raw series has a \<^verbatim>\<open>DatetimeIndex\<close> and is empty or holds
  a NaN, \<^verbatim>\<open>load_series\<close> raises a \<^verbatim>\<open>ValueError\<close>, whatever the transformation, the
  resampling configuration and the expected frequency are: the check comes before both
  steps. An infinite value is not rejected.
\<close>

theorem load_series_rejects_empty_or_nan:
  assumes "private_load_series env s = Inr d"
    and "index d = DatetimeIndex ix"
    and "stamps ix = [] \<or> NaN \<in> set (vals d)"
  shows "\<exists>msg. fst (load_series env (s\<lparr>transformation := tr, resampling_config := rc\<rparr>)
                     expected_frequency) = Inl (ValueError msg)"
  using assms
  by (auto simp: load_series_def private_load_series_config list_ex_isnull Let_def
      split: if_splits)

text \<open>
  The theorem at an hourly series with a NaN, to be resampled and transformed.
\<close>

theorem load_series_rejects_empty_or_nan_witness:
  "\<exists>msg. fst (load_series sample_env
            ((object_specs (hourly_series (Some utc) [Num 0, NaN, Num 2]) None)
               \<lparr>transformation := Some (\<lambda>vs. Inr vs), resampling_config := None\<rparr>) 1800)
     = Inl (ValueError msg)"
proof -
  have a: "private_load_series sample_env
             (object_specs (hourly_series (Some utc) [Num 0, NaN, Num 2]) None)
           = Inr (hourly_series (Some utc) [Num 0, NaN, Num 2])"
    by (simp add: private_load_series_def object_specs_def)
  have b: "index (hourly_series (Some utc) [Num 0, NaN, Num 2])
           = DatetimeIndex (hourly_index (Some utc))"
    by (simp add: hourly_series_def)
  have c: "stamps (hourly_index (Some utc)) = []
           \<or> NaN \<in> set (vals (hourly_series (Some utc) [Num 0, NaN, Num 2]))"
    by (simp add: hourly_series_def)
  show ?thesis
    using load_series_rejects_empty_or_nan
      [OF a b c, where tr = "Some (\<lambda>vs. Inr vs)" and rc = None and expected_frequency = 1800]
    by simp
qed

text \<open>
  The frequency strings of the sample environment.
\<close>

lemma sample_freq_str:
  "timedelta_to_pandas_freq_str sample_env 1800 = Inr ''30T''"
  "timedelta_to_pandas_freq_str sample_env 3600 = Inr ''H''"
  "timedelta_to_pandas_freq_str sample_env 7200 = Inr ''2H''"
  by (simp_all add: sample_env_def)

lemma sample_to_offset:
  "to_offset sample_env ''30T'' = Inr (Tick 30 Minute)"
  "to_offset sample_env ''H'' = Inr (Tick 1 Hour)"
  "to_offset sample_env ''2H'' = Inr (Tick 2 Hour)"
  "to_offset sample_env ''60T'' = Inr (Tick 60 Minute)"
  by (simp_all add: sample_env_def)

lemma freqstr_samples:
  "freqstr (Tick 1 Hour) = ''H''" "freqstr (Tick 60 Minute) = ''60T''"
  "freqstr (Tick 30 Minute) = ''30T''" "freqstr (Tick 2 Hour) = ''2H''"
  by (simp_all add: string_of_nat.simps digit_char_def)

text \<open>
  Against C3 as stated: a raw series with an infinite value, already at the expected
  frequency, is returned as it is, and no error is raised.
\<close>

theorem load_series_accepts_infinity:
  "PosInf \<in> set (vals (hourly_series (Some utc) [Num 0, PosInf, Num 2]))
   \<and> \<not> isfinite PosInf
   \<and> fst (load_series sample_env
            (object_specs (hourly_series (Some utc) [Num 0, PosInf, Num 2]) None) 3600)
       = Inr (PySeries (hourly_series (Some utc) [Num 0, PosInf, Num 2]))"
  by (simp add: load_series_def private_load_series_def object_specs_def hourly_series_def
      hourly_index_def isfinite_def isnull_def apply_transformation_def utc_def sample_freq_str)

text \<open>
  The index that \<^verbatim>\<open>resample\<close> builds with plain keyword arguments: the bins are spaced
  by the frequency, and there is a bucket for every bin.
\<close>

lemma regularly_spaced_grid: "regularly_spaced f (map (\<lambda>k. a + int k * f) [i..<n])"
proof (induction "n - i" arbitrary: i)
  case 0
  then show ?case by simp
next
  case (Suc m)
  then have lt: "i < n" by simp
  show ?case
  proof (cases "Suc i < n")
    case True
    have "regularly_spaced f (map (\<lambda>k. a + int k * f) [Suc i..<n])"
      using Suc by simp
    with True lt show ?thesis
      by (simp add: upt_conv_Cons algebra_simps)
  next
    case False
    with lt show ?thesis by (simp add: upt_conv_Cons)
  qed
qed


lemma regularly_spaced_strict:
  "0 < g \<Longrightarrow> regularly_spaced g xs \<Longrightarrow> sorted_wrt (<) xs"
proof (induction g xs rule: regularly_spaced.induct)
  case (1 f x y ys)
  then have "sorted_wrt (<) (y # ys)" and "x < y" by auto
  then show ?case by fastforce
qed simp_all






lemma div_times_le: "0 < (f::int) \<Longrightarrow> int k < x div f \<Longrightarrow> (int k + 1) * f \<le> x"
proof -
  assume f: "0 < f" and k: "int k < x div f"
  then have "int k + 1 \<le> x div f" by simp
  then have "(int k + 1) * f \<le> (x div f) * f" using f by (simp add: mult_right_mono)
  also have "\<dots> \<le> x"
    using f pos_mod_sign [of f x] div_mult_mod_eq [of x f] by linarith
  finally show ?thesis .
qed











lemma upt_small: "[0..<2] = [0, 1::nat]" "[0..<3] = [0, 1, 2::nat]" "[0..<5] = [0, 1, 2, 3, 4::nat]"
  by (simp_all add: upt_rec)








text \<open>
  A second load sees the spec as the first one left it, and returns the same.
\<close>

lemma load_series_twice_object:
  assumes src: "source s = ObjectData d" and ix: "index d = DatetimeIndex ix" and nv: "tz ix = None"
  shows "load_series env (snd (load_series env s f)) f = load_series env s f"
proof -
  let ?d' = "d\<lparr>index := DatetimeIndex (ix\<lparr>tz := Some utc\<rparr>)\<rparr>"
  let ?s' = "s\<lparr>source := ObjectData ?d', original_tz := Some utc\<rparr>"
  let ?rest = "(if stamps ix = [] then (Inl (ValueError no_values_found), ?s')
      else if list_ex isnull (vals d) then (Inl (ValueError nan_values_found), ?s')
      else case freq ix of None \<Rightarrow> (Inl (AttributeError none_has_no_freqstr), ?s')
       | Some g \<Rightarrow>
           (case timedelta_to_pandas_freq_str env f of
              Inl e \<Rightarrow> (Inl e, ?s')
            | Inr rule \<Rightarrow>
                (case (if freqstr g \<noteq> rule then resample_data env ?s' ?d' f
                       else Inr (PySeries ?d')) of
                   Inl e \<Rightarrow> (Inl e, ?s')
                 | Inr data \<Rightarrow> (apply_transformation env (transformation ?s') data, ?s'))))"
  have raw: "private_load_series env s = Inr d"
    using src by (simp add: private_load_series_def)
  have s1: "snd (load_series env s f) = ?s'"
    using raw ix nv src
    by (auto simp: load_series_def Let_def store_back_def split: option.splits sum.splits)
  have p: "private_load_series env ?s' = Inr ?d'"
    by (simp add: private_load_series_def)
  have sb: "store_back (s\<lparr>original_tz := Some utc\<rparr>) ?d' = ?s'"
    using src by (simp add: store_back_def)
  have fixd: "?s'\<lparr>original_tz := Some utc\<rparr> = ?s'" by simp
  have l1: "load_series env s f = ?rest"
    unfolding load_series_def raw using ix nv sb by (auto simp: Let_def split: option.splits sum.splits)
  have l2: "load_series env ?s' f = ?rest"
    unfolding load_series_def p using fixd by (auto simp: Let_def split: option.splits sum.splits)
  have "load_series env ?s' f = load_series env s f"
    by (simp only: l1 l2)
  then show ?thesis by (simp only: s1)
qed

lemma load_series_twice_fresh:
  assumes raw: "private_load_series env s = Inr d" and ix: "index d = DatetimeIndex ix"
    and nv: "tz ix = None" and src: "\<forall>d0. source s \<noteq> ObjectData d0"
  shows "load_series env (snd (load_series env s f)) f = load_series env s f"
proof -
  let ?s' = "s\<lparr>original_tz := Some utc\<rparr>"
  have sb: "store_back ?s' d' = ?s'" for d'
    using src by (cases "source s") (simp_all add: store_back_def)
  have s1: "snd (load_series env s f) = ?s'"
    using raw ix nv sb
    by (auto simp: load_series_def Let_def split: option.splits sum.splits)
  have p: "private_load_series env ?s' = Inr d"
    using raw by (simp add: private_load_series_def)
  have "load_series env ?s' f = load_series env s f"
    unfolding load_series_def p raw using ix nv sb by (simp add: Let_def)
  then show ?thesis by (simp only: s1)
qed

lemma load_series_twice:
  "load_series env (snd (load_series env s f)) f = load_series env s f"
proof (cases "private_load_series env s")
  case (Inl e)
  then show ?thesis by (simp add: load_series_def)
next
  case (Inr d)
  show ?thesis
  proof (cases "index d")
    case (OtherIndex tn)
    with Inr show ?thesis by (simp add: load_series_def)
  next
    case (DatetimeIndex ix)
    show ?thesis
    proof (cases "tz ix")
      case (Some z)
      have p: "private_load_series env (s\<lparr>original_tz := Some z\<rparr>) = Inr d"
        using Inr by (simp add: private_load_series_def)
      have s1: "snd (load_series env s f) = s\<lparr>original_tz := Some z\<rparr>"
        using Inr DatetimeIndex Some
        by (auto simp: load_series_def Let_def split: option.splits sum.splits)
      show ?thesis unfolding s1
        using Inr DatetimeIndex Some p
        by (simp add: load_series_def Let_def)
    next
      case None
      show ?thesis
      proof (cases "\<exists>d0. source s = ObjectData d0")
        case True
        then obtain d0 where d0: "source s = ObjectData d0" by blast
        with Inr have "d0 = d" by (simp add: private_load_series_def)
        with d0 DatetimeIndex None show ?thesis
          by (simp add: load_series_twice_object)
      next
        case False
        then have "\<forall>d0. source s \<noteq> ObjectData d0" by blast
        from load_series_twice_fresh [OF Inr DatetimeIndex None this] show ?thesis .
      qed
    qed
  qed
qed

text \<open>
  Claim C9. For an \<^verbatim>\<open>ObjectSeriesSpecs\<close> whose series has a \<^verbatim>\<open>DatetimeIndex\<close> with a
  time zone and a frequency, a second \<^verbatim>\<open>load_series\<close> at the same expected frequency
  returns what the first one returned, value or exception, and loading leaves the stored
  series as it was. The transformation is a function of the values, as the model has it.
\<close>

theorem load_series_idempotent:
  assumes "source s = ObjectData d" and "index d = DatetimeIndex ix"
    and "tz ix = Some z" and "freq ix = Some g"
  shows "fst (load_series env (snd (load_series env s expected_frequency)) expected_frequency)
           = fst (load_series env s expected_frequency)
         \<and> source (snd (load_series env s expected_frequency)) = ObjectData d"
proof -
  have raw: "private_load_series env s = Inr d"
    using assms(1) by (simp add: private_load_series_def)
  have stored: "snd (load_series env s expected_frequency) = s\<lparr>original_tz := Some z\<rparr>"
    using raw assms(2,3)
    by (auto simp: load_series_def Let_def split: option.splits sum.splits)
  have again: "fst (load_series env (snd (load_series env s expected_frequency)) expected_frequency)
                 = fst (load_series env s expected_frequency)"
    by (simp only: load_series_twice)
  from stored assms(1) have "source (snd (load_series env s expected_frequency)) = ObjectData d"
    by simp
  with again show ?thesis by blast
qed

text \<open>
  The theorem at an hourly series in UTC, loaded twice at half an hour.
\<close>

theorem load_series_idempotent_witness:
  "fst (load_series sample_env
          (snd (load_series sample_env
                  (object_specs (hourly_series (Some utc) [Num 0, Num 1, Num 2]) None) 1800)) 1800)
     = fst (load_series sample_env
              (object_specs (hourly_series (Some utc) [Num 0, Num 1, Num 2]) None) 1800)
   \<and> source (snd (load_series sample_env
                     (object_specs (hourly_series (Some utc) [Num 0, Num 1, Num 2]) None) 1800))
       = ObjectData (hourly_series (Some utc) [Num 0, Num 1, Num 2])"
proof -
  let ?d = "hourly_series (Some utc) [Num 0, Num 1, Num 2]"
  have a: "source (object_specs ?d None) = ObjectData ?d" by (simp add: object_specs_def)
  have b: "index ?d = DatetimeIndex (hourly_index (Some utc))" by (simp add: hourly_series_def)
  have c: "tz (hourly_index (Some utc)) = Some utc" by (simp add: hourly_index_def)
  have e: "freq (hourly_index (Some utc)) = Some (Tick 1 Hour)" by (simp add: hourly_index_def)
  from load_series_idempotent [OF a b c e] show ?thesis .
qed

text \<open>
  Claim C10, as amended. A \<^verbatim>\<open>load_series\<close> whose raw series has a \<^verbatim>\<open>DatetimeIndex\<close>
  sets \<^verbatim>\<open>original_tz\<close> to the time zone of that index, UTC when it has none, whatever was
  there before; and when the spec is an \<^verbatim>\<open>ObjectSeriesSpecs\<close> and the index has no time
  zone, the stored series is the localized one afterwards. A \<^verbatim>\<open>load_series\<close> whose
  \<^verbatim>\<open>_load_series\<close> raises, or returns a series without a \<^verbatim>\<open>DatetimeIndex\<close>, raises
  and leaves the spec as it was, \<^verbatim>\<open>original_tz\<close> included.
\<close>

theorem load_series_sets_original_tz:
  "case private_load_series env s of
     Inl e \<Rightarrow> load_series env s expected_frequency = (Inl e, s)
   | Inr d \<Rightarrow>
       (case index d of
          OtherIndex type_name \<Rightarrow>
            load_series env s expected_frequency
              = (Inl (IncompatibleModelSpecs (no_datetime_index type_name)), s)
        | DatetimeIndex ix \<Rightarrow>
            original_tz (snd (load_series env s expected_frequency))
              = Some (case tz ix of None \<Rightarrow> utc | Some z \<Rightarrow> z)
            \<and> (source s = ObjectData d \<and> tz ix = None \<longrightarrow>
                 source (snd (load_series env s expected_frequency))
                   = ObjectData (d\<lparr>index := DatetimeIndex (ix\<lparr>tz := Some utc\<rparr>)\<rparr>)))"
  by (auto simp: load_series_def Let_def store_back_def
      split: option.splits sum.splits source.splits pd_index.splits)

text \<open>
  The theorem at a naive hourly series, in a spec constructed with another zone.
\<close>

theorem load_series_sets_original_tz_witness:
  "original_tz (snd (load_series sample_env
      ((object_specs (hourly_series None [Num 0, Num 1, Num 2]) None)
         \<lparr>original_tz := Some ''Etc/GMT-1''\<rparr>) 3600)) = Some utc
   \<and> source (snd (load_series sample_env
      ((object_specs (hourly_series None [Num 0, Num 1, Num 2]) None)
         \<lparr>original_tz := Some ''Etc/GMT-1''\<rparr>) 3600))
     = ObjectData (hourly_series (Some utc) [Num 0, Num 1, Num 2])"
proof -
  let ?d = "hourly_series None [Num 0, Num 1, Num 2]"
  let ?s = "(object_specs ?d None)\<lparr>original_tz := Some ''Etc/GMT-1''\<rparr>"
  have a: "private_load_series sample_env ?s = Inr ?d"
    by (simp add: private_load_series_def object_specs_def)
  have b: "index ?d = DatetimeIndex (hourly_index None)" by (simp add: hourly_series_def)
  have c: "source ?s = ObjectData ?d \<and> tz (hourly_index None) = None"
    by (simp add: object_specs_def hourly_index_def)
  from load_series_sets_original_tz [of sample_env ?s 3600] a b c show ?thesis
    by (simp add: hourly_index_def hourly_series_def)
qed

text \<open>
  Against C10 as stated: the base class has no data, its load fails on the index check,
  and the \<^verbatim>\<open>original_tz\<close> given at construction stays.
\<close>

theorem load_series_keeps_original_tz_on_error:
  "load_series sample_env (SeriesSpecs_init ''SeriesSpecs'' ''y'' (Some ''Etc/GMT-1'') None None) 3600
     = (Inl (IncompatibleModelSpecs ''Loaded series has no DatetimeIndex, but Index''),
        SeriesSpecs_init ''SeriesSpecs'' ''y'' (Some ''Etc/GMT-1'') None None)
   \<and> original_tz (snd (load_series sample_env
        (SeriesSpecs_init ''SeriesSpecs'' ''y'' (Some ''Etc/GMT-1'') None None) 3600))
       = Some ''Etc/GMT-1''"
  by (simp add: load_series_def private_load_series_def SeriesSpecs_init_def empty_series_def
      no_datetime_index_def)

text \<open>
  With plain keyword arguments and a positive frequency \<^verbatim>\<open>resample\<close> does not raise.
\<close>

lemma resample_succeeds:
  "plain_kwargs kw \<Longrightarrow> to_offset env rule = Inr off \<Longrightarrow> 0 < delta off
   \<Longrightarrow> \<exists>r. resample env rule kw ix vs = Inr r"
  by (cases "stamps ix") (auto simp: resample_def Let_def split: prod.splits)

lemma find_no_method:
  "agg_name \<notin> set (map fst ms)
   \<Longrightarrow> find (\<lambda>(n, m). CStr agg_name = CStr n) ms = None"
  by (force simp: find_None_iff)

text \<open>
  Claim C4, as amended. The aggregation is looked up among the bound methods of the
  resampler, and only when a load has to resample, which is when the frequency string of
  the data differs from the string for the expected frequency. Such a load, once
  \<^verbatim>\<open>resample\<close> has returned a resampler, fails with \<^verbatim>\<open>IncompatibleModelSpecs\<close> when the
  configuration names no method of the resampler. A load of a series whose frequency string
  is the expected one never looks at the name: it returns the series, transformed if a
  transformation is set.
\<close>

theorem unknown_aggregation_rejected_when_resampling:
  assumes raw: "private_load_series env s = Inr d" and ix: "index d = DatetimeIndex ix"
    and ne: "stamps ix \<noteq> []" and nn: "NaN \<notin> set (vals d)" and g: "freq ix = Some g"
    and cfg: "resampling_config s = Some cfg"
    and agg: "map_of cfg ''aggregation'' = Some (CStr agg_name)"
    and str: "timedelta_to_pandas_freq_str env expected_frequency = Inr rule"
  shows "(freqstr g \<noteq> rule
            \<and> resample env rule (filter (\<lambda>(k, v). k \<noteq> ''aggregation'') cfg)
                  (if tz ix = None then ix\<lparr>tz := Some utc\<rparr> else ix) (vals d) = Inr r
            \<and> agg_name \<notin> set (map fst (resampler_methods env))
          \<longrightarrow> fst (load_series env s expected_frequency)
                = Inl (IncompatibleModelSpecs
                         (cannot_find_aggregation agg_name (resampler_repr env r))))
       \<and> (freqstr g = rule
          \<longrightarrow> fst (load_series env s expected_frequency)
                = apply_transformation env (transformation s)
                    (PySeries (if tz ix = None then d\<lparr>index := DatetimeIndex (ix\<lparr>tz := Some utc\<rparr>)\<rparr>
                               else d)))"
proof (intro conjI impI)
  assume a: "freqstr g \<noteq> rule
            \<and> resample env rule (filter (\<lambda>(k, v). k \<noteq> ''aggregation'') cfg)
                  (if tz ix = None then ix\<lparr>tz := Some utc\<rparr> else ix) (vals d) = Inr r
            \<and> agg_name \<notin> set (map fst (resampler_methods env))"
  define ix1 where "ix1 = (if tz ix = None then ix\<lparr>tz := Some utc\<rparr> else ix)"
  define d1 where "d1 = (if tz ix = None then d\<lparr>index := DatetimeIndex ix1\<rparr> else d)"
  define s1 where "s1 = (if tz ix = None then store_back (s\<lparr>original_tz := Some utc\<rparr>) d1
                         else s\<lparr>original_tz := tz ix\<rparr>)"
  have rc: "resampling_config s1 = Some cfg"
    using cfg by (auto simp: s1_def store_back_def split: source.splits)
  have id1: "index d1 = DatetimeIndex ix1" and v1: "vals d1 = vals d"
    using ix by (auto simp: d1_def ix1_def)
  from a have r: "resample env rule (filter (\<lambda>(k, v). k \<noteq> ''aggregation'') cfg) ix1 (vals d) = Inr r"
    by (simp add: ix1_def)
  from a have "find (\<lambda>(n, m). CStr agg_name = CStr n) (resampler_methods env) = None"
    by (intro find_no_method) simp
  then have rd: "resample_data env s1 d1 expected_frequency
          = Inl (IncompatibleModelSpecs (cannot_find_aggregation agg_name (resampler_repr env r)))"
    using rc agg id1 v1 r str by (simp add: resample_data_def series_resample_def)
  show "fst (load_series env s expected_frequency)
          = Inl (IncompatibleModelSpecs (cannot_find_aggregation agg_name (resampler_repr env r)))"
    using raw ix ne nn g a rd str
    by (auto simp: load_series_def Let_def list_ex_isnull ix1_def d1_def s1_def)
next
  assume "freqstr g = rule"
  then show "fst (load_series env s expected_frequency)
                = apply_transformation env (transformation s)
                    (PySeries (if tz ix = None then d\<lparr>index := DatetimeIndex (ix\<lparr>tz := Some utc\<rparr>)\<rparr>
                               else d))"
    using raw ix ne nn g str
    by (auto simp: load_series_def Let_def list_ex_isnull store_back_def split: source.splits)
qed

text \<open>
  The theorem at a series of three hours whose frequency prints as \<^verbatim>\<open>60T\<close>, to be loaded
  at one hour, which prints as \<^verbatim>\<open>H\<close>, with the aggregation \<^verbatim>\<open>bogus\<close>: the load
  resamples, and fails.
\<close>

theorem unknown_aggregation_rejected_when_resampling_witness:
  "\<exists>r. fst (load_series sample_env
             (object_specs (sixty_minutes_series [Num 0, Num 1, Num 2]) (Some bogus_config)) 3600)
        = Inl (IncompatibleModelSpecs (cannot_find_aggregation ''bogus'' r))"
proof -
  let ?d = "sixty_minutes_series [Num 0, Num 1, Num 2]"
  let ?s = "object_specs ?d (Some bogus_config)"
  let ?ix = "(hourly_index (Some utc))\<lparr>freq := Some (Tick 60 Minute)\<rparr>"
  have a: "private_load_series sample_env ?s = Inr ?d"
    by (simp add: private_load_series_def object_specs_def)
  have b: "index ?d = DatetimeIndex ?ix" by (simp add: sixty_minutes_series_def)
  have c: "stamps ?ix \<noteq> []" by (simp add: hourly_index_def)
  have e: "NaN \<notin> set (vals ?d)" by (simp add: sixty_minutes_series_def)
  have g: "freq ?ix = Some (Tick 60 Minute)" by simp
  have h: "resampling_config ?s = Some bogus_config" by (simp add: object_specs_def)
  have i: "map_of bogus_config ''aggregation'' = Some (CStr ''bogus'')"
    by (simp add: bogus_config_def)
  have k: "plain_kwargs (filter (\<lambda>(k, v). k \<noteq> ''aggregation'') bogus_config)"
    by (simp add: bogus_config_def plain_kwargs_def)
  have "0 < delta (Tick 1 Hour)" by simp
  from resample_succeeds [OF k sample_to_offset(2) this]
  obtain r where r: "resample sample_env ''H'' (filter (\<lambda>(k, v). k \<noteq> ''aggregation'') bogus_config)
      (if tz ?ix = None then ?ix\<lparr>tz := Some utc\<rparr> else ?ix) (vals ?d) = Inr r"
    by blast
  have j: "freqstr (Tick 60 Minute) \<noteq> ''H''"
    "''bogus'' \<notin> set (map fst (resampler_methods sample_env))"
    by (simp_all add: freqstr_samples sample_env_def)
  from unknown_aggregation_rejected_when_resampling [OF a b c e g h i sample_freq_str(2), of r] r j
  show ?thesis by blast
qed

text \<open>
  Against C4 as stated: the same configuration on the series whose frequency prints as
  \<^verbatim>\<open>H\<close> loads without an error.
\<close>

theorem unknown_aggregation_accepted_without_resampling:
  "''bogus'' \<notin> set (map fst (resampler_methods sample_env))
   \<and> fst (load_series sample_env
           (object_specs (hourly_series (Some utc) [Num 0, Num 1, Num 2]) (Some bogus_config)) 3600)
       = Inr (PySeries (hourly_series (Some utc) [Num 0, Num 1, Num 2]))"
  by (simp add: load_series_def private_load_series_def object_specs_def hourly_series_def
      hourly_index_def isnull_def apply_transformation_def utc_def sample_env_def)

section \<open>Properties of the query-backed source\<close>










section \<open>Properties of decoding\<close>

lemma unbound_name:
  "n \<notin> set series_classes \<Longrightarrow> n \<notin> set other_globals \<Longrightarrow> lookup_global (JString n) = Inl (KeyError n)"
  by (simp add: lookup_global_def module_globals_def)

text \<open>
  Claim C6, as amended. Take a document whose \<^verbatim>\<open>__series_type__\<close> is a string that
  names no class of series specs. When the string is bound to nothing in the module's
  namespace, decoding fails with a \<^verbatim>\<open>KeyError\<close> that carries the string. When it is
  bound to another global, that object is called with the other fields of the document,
  and decoding returns or raises what the call does.
\<close>

theorem unbound_series_type_raises_KeyError:
  assumes "json_loads env s = Inr (JObject json_repr)"
    and "map_of json_repr ''__series_type__'' = Some (JString n)"
    and "n \<notin> set series_classes"
  shows "(n \<notin> set other_globals \<longrightarrow> load_series_specs_from_json env s = Inl (KeyError n))
       \<and> (n \<in> set other_globals
            \<longrightarrow> load_series_specs_from_json env s
                  = (case call_other env n (filter (\<lambda>(k, v). take 2 k \<noteq> ''__'') json_repr) of
                       Inl e \<Rightarrow> Inl e
                     | Inr r \<Rightarrow> Inr (Foreign r)))"
  using assms
  by (simp add: load_series_specs_from_json_def unbound_name lookup_global_def
      module_globals_def construct_def)

text \<open>
  The name \<^verbatim>\<open>TableSeriesSpecs\<close> of the sample document is bound to nothing.
\<close>

lemma TableSeriesSpecs_unbound:
  "''TableSeriesSpecs'' \<notin> set series_classes" "''TableSeriesSpecs'' \<notin> set other_globals"
  by (simp_all add: series_classes_def other_globals_def)

text \<open>
  The theorem at the sample document.
\<close>

theorem unbound_series_type_raises_KeyError_witness:
  "load_series_specs_from_json sample_decoder_env unknown_kind_text
     = Inl (KeyError ''TableSeriesSpecs'')"
proof -
  have a: "json_loads sample_decoder_env unknown_kind_text
             = Inr (JObject [(''__series_type__'', JString ''TableSeriesSpecs''),
                             (''name'', JString ''y'')])"
    by (simp add: sample_decoder_env_def unknown_kind_def)
  have b: "map_of [(''__series_type__'', JString ''TableSeriesSpecs''), (''name'', JString ''y'')]
             ''__series_type__'' = Some (JString ''TableSeriesSpecs'')"
    by simp
  from unbound_series_type_raises_KeyError [OF a b TableSeriesSpecs_unbound(1)]
    TableSeriesSpecs_unbound(2)
  show ?thesis by blast
qed

text \<open>
  Against C6 as stated: the exception for the unknown discriminator is a \<^verbatim>\<open>KeyError\<close>,
  the module has no \<^verbatim>\<open>UnknownSeriesType\<close>; and a discriminator that names another global,
  such as \<^verbatim>\<open>ModelSpecs\<close>, is found and then called.
\<close>

theorem unknown_series_type_is_no_UnknownSeriesType:
  "(\<exists>e. load_series_specs_from_json sample_decoder_env unknown_kind_text = Inl e
        \<and> exception_class e = ''KeyError'' \<and> exception_class e \<noteq> ''UnknownSeriesType'')
   \<and> lookup_global (JString ''ModelSpecs'') = Inr (OtherGlobal ''ModelSpecs'')"
proof -
  have "load_series_specs_from_json sample_decoder_env unknown_kind_text
          = Inl (KeyError ''TableSeriesSpecs'')"
    by (simp add: load_series_specs_from_json_def sample_decoder_env_def unknown_kind_def
        unbound_name TableSeriesSpecs_unbound)
  moreover have "lookup_global (JString ''ModelSpecs'') = Inr (OtherGlobal ''ModelSpecs'')"
    by (simp add: lookup_global_def module_globals_def series_classes_def other_globals_def)
  ultimately show ?thesis by simp
qed

text \<open>
  Decoding the tagged representation of an \<^verbatim>\<open>ObjectSeriesSpecs\<close>, step by step.
\<close>

lemma ObjectSeriesSpecs_bound:
  "lookup_global (JString ''ObjectSeriesSpecs'') = Inr (SeriesClass ''ObjectSeriesSpecs'')"
  by (simp add: lookup_global_def module_globals_def series_classes_def)

lemma decode_data_tagged:
  assumes src: "source s = ObjectData d" and tz: "original_tz s = Some z"
    and rj: "read_json env (to_json enc d)
               = Inr \<lparr>index = DatetimeIndex \<lparr>stamps = ts, tz = None, freq = None\<rparr>, vals = vs\<rparr>"
    and zn: "maybe_get_tz env (JString z) = Inr z"
    and tagged: "as_tagged enc s = JObject json_repr"
  shows "decode_data env json_repr
           = Inr \<lparr>index = DatetimeIndex \<lparr>stamps = map (\<lambda>w. w - zone_offset env z) ts,
                                         tz = Some z, freq = None\<rparr>,
                  vals = vs\<rparr>"
proof -
  from tagged src tz have d: "map_of json_repr ''data'' = Some (to_json enc d)"
    and o: "map_of json_repr ''original_tz'' = Some (JString z)"
    by (auto simp: as_tagged_def)
  show ?thesis
    by (simp add: decode_data_def d o rj zn tz_localize_def)
qed

lemma construct_tagged:
  assumes src: "source s = ObjectData d" and tz: "original_tz s = Some z"
    and tagged: "as_tagged enc s = JObject json_repr"
    and ix: "index stored = DatetimeIndex ix'"
  shows "construct env (SeriesClass ''ObjectSeriesSpecs'')
           (filter (\<lambda>(k, v). take 2 k \<noteq> ''__'') json_repr) (Some stored)
         = Inr (Decoded
             \<lparr>d_name = JString (name s), d_original_tz = JString z,
              d_transformation =
                (case transformation s of None \<Rightarrow> JNull | Some t \<Rightarrow> params_json enc t),
              d_resampling_config =
                (case resampling_config s of
                   None \<Rightarrow> JNull
                 | Some cfg \<Rightarrow> JObject (map (\<lambda>(k, v). (k, cfg_json v)) cfg)),
              d_series_type = ''ObjectSeriesSpecs'',
              d_source = DataOf stored\<rparr>)"
proof -
  from tagged src tz have j: "json_repr =
       [(''name'', JString (name s)),
        (''original_tz'', JString z),
        (''transformation'',
           case transformation s of None \<Rightarrow> JNull | Some t \<Rightarrow> params_json enc t),
        (''resampling_config'',
           case resampling_config s of
             None \<Rightarrow> JNull
           | Some cfg \<Rightarrow> JObject (map (\<lambda>(k, v). (k, cfg_json v)) cfg)),
        (''__series_type__'', JString (series_type s)),
        (''data'', to_json enc d)]"
    by (auto simp: as_tagged_def)
  show ?thesis
    unfolding j
    by (simp add: construct_def bind_arguments_def common_parameters_def decoded_init_def
        argument_def ix)
qed

text \<open>
  Claim C5, on the decoder. Take an \<^verbatim>\<open>ObjectSeriesSpecs\<close> with a time zone \<open>z\<close> as its
  \<^verbatim>\<open>original_tz\<close>, its tagged representation, and let \<^verbatim>\<open>pd.read_json\<close> give back the
  values and the time stamps as they were written, normalized to UTC and without a zone.
  Then \<^verbatim>\<open>load_series_specs_from_json\<close> returns a spec with the same name, zone name,
  transformation parameters, resampling configuration and values; but its index is the
  written stamps read as wall-clock time in \<open>z\<close>, so every instant is moved by the
  offset of \<open>z\<close>, and the frequency of the index is gone. The round trip gives the
  instants back only for a zone without an offset.
\<close>

theorem decode_localizes_utc_index:
  assumes src: "source s = ObjectData d" and ix: "index d = DatetimeIndex ix"
    and st: "series_type s = ''ObjectSeriesSpecs''"
    and tz: "original_tz s = Some z"
    and loads: "json_loads env txt = Inr (as_tagged enc s)"
    and rj: "read_json env (to_json enc d)
               = Inr \<lparr>index = DatetimeIndex \<lparr>stamps = stamps ix, tz = None, freq = None\<rparr>,
                      vals = vals d\<rparr>"
    and zn: "maybe_get_tz env (JString z) = Inr z"
  shows "load_series_specs_from_json env txt
         = Inr (Decoded
             \<lparr>d_name = JString (name s), d_original_tz = JString z,
              d_transformation =
                (case transformation s of None \<Rightarrow> JNull | Some t \<Rightarrow> params_json enc t),
              d_resampling_config =
                (case resampling_config s of
                   None \<Rightarrow> JNull
                 | Some cfg \<Rightarrow> JObject (map (\<lambda>(k, v). (k, cfg_json v)) cfg)),
              d_series_type = ''ObjectSeriesSpecs'',
              d_source =
                DataOf \<lparr>index = DatetimeIndex
                                  \<lparr>stamps = map (\<lambda>w. w - zone_offset env z) (stamps ix),
                                   tz = Some z, freq = None\<rparr>,
                        vals = vals d\<rparr>\<rparr>)"
proof -
  obtain json_repr where tagged: "as_tagged enc s = JObject json_repr"
    by (simp add: as_tagged_def)
  from tagged st have tag: "map_of json_repr ''__series_type__'' = Some (JString ''ObjectSeriesSpecs'')"
    by (auto simp: as_tagged_def)
  note dd = decode_data_tagged [OF src tz rj zn tagged]
  have ct: "construct env (SeriesClass ''ObjectSeriesSpecs'')
           (filter (\<lambda>(k, v). take 2 k \<noteq> ''__'') json_repr)
           (Some \<lparr>index = DatetimeIndex \<lparr>stamps = map (\<lambda>w. w - zone_offset env z) (stamps ix),
                                         tz = Some z, freq = None\<rparr>,
                  vals = vals d\<rparr>)
         = Inr (Decoded
             \<lparr>d_name = JString (name s), d_original_tz = JString z,
              d_transformation =
                (case transformation s of None \<Rightarrow> JNull | Some t \<Rightarrow> params_json enc t),
              d_resampling_config =
                (case resampling_config s of
                   None \<Rightarrow> JNull
                 | Some cfg \<Rightarrow> JObject (map (\<lambda>(k, v). (k, cfg_json v)) cfg)),
              d_series_type = ''ObjectSeriesSpecs'',
              d_source =
                DataOf \<lparr>index = DatetimeIndex
                                  \<lparr>stamps = map (\<lambda>w. w - zone_offset env z) (stamps ix),
                                   tz = Some z, freq = None\<rparr>,
                        vals = vals d\<rparr>\<rparr>)"
    by (rule construct_tagged [OF src tz tagged]) simp
  show ?thesis
    by (simp add: load_series_specs_from_json_def loads tagged tag ObjectSeriesSpecs_bound dd ct)
qed

text \<open>
  The theorem at the hourly series in a zone one hour ahead of UTC: the decoded series
  starts at 14:00 UTC, the original at 15:00 UTC.
\<close>

theorem decode_localizes_utc_index_witness:
  "\<exists>spec stored ix'. load_series_specs_from_json sample_decoder_env ahead_text = Inr (Decoded spec)
     \<and> d_source spec = DataOf stored \<and> index stored = DatetimeIndex ix'
     \<and> vals stored = [Num 0, Num 1, Num 2] \<and> tz ix' = Some ''Etc/GMT-1'' \<and> freq ix' = None
     \<and> stamps ix' = [1548165600, 1548169200, 1548172800]
     \<and> stamps (hourly_index (Some ''Etc/GMT-1'')) = [1548169200, 1548172800, 1548176400]"
proof -
  let ?d = "hourly_series (Some ''Etc/GMT-1'') [Num 0, Num 1, Num 2]"
  have a: "source ahead_specs = ObjectData ?d" by (simp add: ahead_specs_def object_specs_def)
  have b: "index ?d = DatetimeIndex (hourly_index (Some ''Etc/GMT-1''))"
    by (simp add: hourly_series_def)
  have c: "series_type ahead_specs = ''ObjectSeriesSpecs''"
    by (simp add: ahead_specs_def object_specs_def)
  have e: "original_tz ahead_specs = Some ''Etc/GMT-1''" by (simp add: ahead_specs_def)
  have f: "json_loads sample_decoder_env ahead_text = Inr (as_tagged sample_encoder ahead_specs)"
    by (simp add: sample_decoder_env_def ahead_text_def unknown_kind_text_def quoted_def)
  have g: "read_json sample_decoder_env (to_json sample_encoder ?d)
             = Inr \<lparr>index = DatetimeIndex
                              \<lparr>stamps = stamps (hourly_index (Some ''Etc/GMT-1'')), tz = None,
                               freq = None\<rparr>,
                    vals = vals ?d\<rparr>"
    by (simp add: sample_decoder_env_def sample_encoder_def hourly_series_def hourly_index_def)
  have h: "maybe_get_tz sample_decoder_env (JString ''Etc/GMT-1'') = Inr ''Etc/GMT-1''"
    by (simp add: sample_decoder_env_def)
  have i: "zone_offset sample_decoder_env ''Etc/GMT-1'' = 3600"
    by (simp add: sample_decoder_env_def)
  from decode_localizes_utc_index [OF a b c e f g h] show ?thesis
    by (simp add: i hourly_index_def hourly_series_def)
qed

section \<open>Properties of model specs\<close>



section \<open>Properties of rolling forecasts\<close>

text \<open>
  A step adds the tick to the forecasts when its row is complete, and nothing otherwise.
\<close>

lemma rolling_step_stamps:
  "map fst (fst (rolling_step env specs acc t))
     = map fst (fst acc) @ (if feature_row env t \<noteq> None then [t] else [])"
  by (cases "feature_row env t") (simp_all add: rolling_step_def Let_def)

lemma rolling_steps_stamps:
  "map fst (fst (foldl (rolling_step env specs) acc ts))
     = map fst (fst acc) @ filter (\<lambda>t. feature_row env t \<noteq> None) ts"
proof (induction ts arbitrary: acc)
  case Nil
  then show ?case by simp
next
  case (Cons t ts)
  have "map fst (fst (foldl (rolling_step env specs) (rolling_step env specs acc t) ts))
          = map fst (fst (rolling_step env specs acc t)) @ filter (\<lambda>t. feature_row env t \<noteq> None) ts"
    by (rule Cons.IH)
  then show ?case by (simp add: rolling_step_stamps)
qed

lemma ticks_strict: "sorted_wrt (<) (ticks start stop f)"
proof (cases "f \<le> 0")
  case True
  then show ?thesis by (simp add: ticks_def)
next
  case False
  then have "0 < f" by simp
  moreover have "regularly_spaced f (ticks start stop f)"
    using False by (simp add: ticks_def regularly_spaced_grid)
  ultimately show ?thesis by (rule regularly_spaced_strict)
qed

lemma le_div_times: "0 < (f::int) \<Longrightarrow> q * f \<le> x \<Longrightarrow> q \<le> x div f"
proof -
  assume f: "0 < f" and q: "q * f \<le> x"
  have "q = (q * f) div f" using f by simp
  also have "\<dots> \<le> x div f" using q f by (rule zdiv_mono1)
  finally show ?thesis .
qed

lemma ticks_set:
  assumes f: "0 < f"
  shows "set (ticks start stop f) = {t. start \<le> t \<and> t < stop \<and> f dvd (t - start)}"
proof (rule set_eqI)
  fix t
  let ?n = "nat ((stop - start + f - 1) div f)"
  have "t \<in> set (ticks start stop f) \<longleftrightarrow> (\<exists>k < ?n. t = start + int k * f)"
    using f by (auto simp: ticks_def)
  also have "\<dots> \<longleftrightarrow> start \<le> t \<and> t < stop \<and> f dvd (t - start)"
  proof
    assume "\<exists>k < ?n. t = start + int k * f"
    then obtain k where k: "k < ?n" "t = start + int k * f" by blast
    from k(1) have "int k < (stop - start + f - 1) div f" by simp
    from div_times_le [OF f this] have "int k * f < stop - start" by (simp add: algebra_simps)
    moreover have "0 \<le> int k * f" using f by simp
    ultimately show "start \<le> t \<and> t < stop \<and> f dvd (t - start)" using k(2) by simp
  next
    assume a: "start \<le> t \<and> t < stop \<and> f dvd (t - start)"
    then obtain q where q: "t - start = f * q" by (auto simp: dvd_def)
    from q a have "0 \<le> f * q" by simp
    with f have q0: "0 \<le> q" by (simp add: zero_le_mult_iff)
    from q a have "(q + 1) * f \<le> stop - start + f - 1" by (simp add: algebra_simps)
    from le_div_times [OF f this] have "q < (stop - start + f - 1) div f" by simp
    with q0 have "nat q < ?n" by simp
    moreover from q q0 have "t = start + int (nat q) * f" by (simp add: algebra_simps)
    ultimately show "\<exists>k < ?n. t = start + int k * f" by blast
  qed
  finally show "t \<in> set (ticks start stop f) \<longleftrightarrow> t \<in> {t. start \<le> t \<and> t < stop \<and> f dvd (t - start)}"
    by simp
qed

text \<open>
  Claim C2. At a positive frequency the time stamps of the forecasts are the ticks whose
  feature row is complete, in the order of the ticks, which increases strictly; and the
  ticks are the times from \<open>start\<close> up to but without \<open>stop\<close> that are a multiple of
  the frequency away from \<open>start\<close>. So there is one forecast for every tick with a
  complete row, none for any other tick, and no error for the ticks left out.
\<close>

theorem rolling_forecasts_one_per_complete_tick:
  assumes "0 < frequency specs"
  shows "map fst (fst (make_rolling_forecasts env start stop specs state))
           = filter (\<lambda>t. feature_row env t \<noteq> None) (ticks start stop (frequency specs))
         \<and> sorted_wrt (<) (map fst (fst (make_rolling_forecasts env start stop specs state)))
         \<and> sorted_wrt (<) (ticks start stop (frequency specs))
         \<and> set (ticks start stop (frequency specs))
             = {t. start \<le> t \<and> t < stop \<and> frequency specs dvd (t - start)}"
proof -
  have a: "map fst (fst (make_rolling_forecasts env start stop specs state))
           = filter (\<lambda>t. feature_row env t \<noteq> None) (ticks start stop (frequency specs))"
    by (simp add: make_rolling_forecasts_def rolling_steps_stamps)
  have b: "sorted_wrt (<) (ticks start stop (frequency specs))" by (rule ticks_strict)
  then have "sorted_wrt (<) (filter (\<lambda>t. feature_row env t \<noteq> None) (ticks start stop (frequency specs)))"
    by (rule sorted_wrt_filter)
  with a b ticks_set [OF assms] show ?thesis by simp
qed

text \<open>
  The ticks of the hours 15:00 to 20:00 of the test's day.
\<close>

lemma sample_ticks:
  "ticks 1548169200 1548187200 3600
     = [1548169200, 1548172800, 1548176400, 1548180000, 1548183600]"
  by (simp add: ticks_def upt_small)

text \<open>
  The theorem at these hours: the rows of the first two hours lack their lags, and the
  forecasts are those of 17:00, 18:00 and 19:00.
\<close>

theorem rolling_forecasts_one_per_complete_tick_witness:
  "map fst (fst (make_rolling_forecasts sample_forecast_env 1548169200 1548187200
                   sample_model_specs sample_model_state))
     = [1548176400, 1548180000, 1548183600]"
proof -
  have f: "frequency sample_model_specs = 3600" by (simp add: sample_model_specs_def)
  then have "0 < frequency sample_model_specs" by simp
  from rolling_forecasts_one_per_complete_tick [OF this, of sample_forecast_env 1548169200
      1548187200 sample_model_state]
  show ?thesis by (simp add: f sample_ticks sample_forecast_env_def)
qed

end
